theory Spec2Isabelle
  imports Main "HOL-Library.Char_ord" "HOL-Library.List_Lexorder" "HOL-Library.Multiset"
begin

section \<open>Results of fallible calls\<close>

text \<open>
  The codecs of \<^verbatim>\<open>pkg/api/apisix/types/types.go\<close> return a Go \<^verbatim>\<open>error\<close>; two of them can
  also stop with a run-time panic. A call therefore ends in one of three ways.
\<close>

datatype error =
    SyntaxError                 \<comment> \<open>encoding/json: the payload is not one JSON value\<close>
  | UnmarshalTypeError          \<comment> \<open>encoding/json: a JSON value does not fit the Go type\<close>
  | EmptyObject                 \<comment> \<open>\<^verbatim>\<open>errors.New("empty object")\<close>\<close>
  | InvalidUpstreamNode         \<comment> \<open>\<^verbatim>\<open>errors.New("invalid upstream node")\<close>\<close>
  | ParsePortFail               \<comment> \<open>\<^verbatim>\<open>fmt.Errorf("parse port to int fail: %s", ...)\<close>\<close>
  | MetadataIdNotString string  \<comment> \<open>\<^verbatim>\<open>"plugin metadata id is not a string, input: " + string(p)\<close>\<close>

datatype panic =
    IndexOutOfRange             \<comment> \<open>\<^verbatim>\<open>p[0]\<close> on an empty slice\<close>
  | NilDereference              \<comment> \<open>a method call on a nil interface value\<close>

datatype 'a result = Ok 'a | Err error | Panic panic

section \<open>Go values held in \<^verbatim>\<open>interface{}\<close>\<close>

text \<open>
  A JSON number decoded into \<^verbatim>\<open>interface{}\<close> or \<^verbatim>\<open>float64\<close> is modelled as the exact decimal
  \<open>m / 10 ^ k\<close> (\<open>Dec m k\<close>); rounding to binary64 is not modelled. The values an
  \<^verbatim>\<open>interface{}\<close> holds are those encoding/json produces: nil, bool, float64, string,
  \<^verbatim>\<open>[]interface{}\<close> and \<^verbatim>\<open>map[string]interface{}\<close>. A Go map is an association list kept
  in ascending key order without repeated keys, which is also the order in which
  \<^verbatim>\<open>json.Marshal\<close> writes a map.
\<close>

datatype dec = Dec int nat

datatype gval =
    VNil
  | VBool bool
  | VNum dec
  | VStr string
  | VArr "gval list"
  | VObj "(string \<times> gval) list"

type_synonym 'v gomap = "(string \<times> 'v) list"

text \<open>\<^verbatim>\<open>m[k] = v\<close>\<close>

fun map_assign :: "string \<Rightarrow> 'v \<Rightarrow> 'v gomap \<Rightarrow> 'v gomap" where
  "map_assign k v [] = [(k, v)]"
| "map_assign k v ((k', v') # m) =
     (if k = k' then (k, v) # m
      else if k < k' then (k, v) # (k', v') # m
      else (k', v') # map_assign k v m)"

text \<open>\<^verbatim>\<open>delete(m, k)\<close>\<close>

definition map_delete :: "string \<Rightarrow> 'v gomap \<Rightarrow> 'v gomap" where
  "map_delete k m = filter (\<lambda>kv. fst kv \<noteq> k) m"

text \<open>\<^verbatim>\<open>v, ok := m[k]\<close>\<close>

definition map_lookup :: "'v gomap \<Rightarrow> string \<Rightarrow> 'v option" where
  "map_lookup m k = map_of m k"

section \<open>\<^verbatim>\<open>json.Marshal\<close>\<close>

definition dq :: char where "dq = CHR 0x22"
definition bsl :: char where "bsl = CHR 0x5C"

definition hexdigit :: "nat \<Rightarrow> char" where
  "hexdigit n = (if n < 10 then char_of (48 + n) else char_of (87 + n))"

text \<open>
  One byte of a Go string inside a JSON string literal, as \<^verbatim>\<open>appendString\<close> with HTML
  escaping (the default of \<^verbatim>\<open>json.Marshal\<close>) writes it. Bytes from \<open>0x80\<close> on are copied:
  strings are taken to be well-formed UTF-8.
\<close>

definition esc_char :: "char \<Rightarrow> string" where
  "esc_char c =
     (if c = dq \<or> c = bsl then [bsl, c]
      else if c = CHR 0x0A then [bsl, CHR ''n'']
      else if c = CHR 0x0D then [bsl, CHR ''r'']
      else if c = CHR 0x09 then [bsl, CHR ''t'']
      else if (of_char c :: nat) < 32 \<or> c = CHR ''<'' \<or> c = CHR ''>'' \<or> c = CHR ''&''
        then [bsl, CHR ''u'', CHR ''0'', CHR ''0'',
              hexdigit (of_char c div 16), hexdigit (of_char c mod 16)]
      else [c])"

definition quote :: "string \<Rightarrow> string" where
  "quote s = dq # concat (map esc_char s) @ [dq]"

fun digits_aux :: "nat \<Rightarrow> nat \<Rightarrow> string \<Rightarrow> string" where
  "digits_aux 0 n acc = acc"
| "digits_aux (Suc f) n acc =
     (if n < 10 then char_of (48 + n) # acc
      else digits_aux f (n div 10) (char_of (48 + n mod 10) # acc))"

definition digits :: "nat \<Rightarrow> string" where
  "digits n = digits_aux (Suc n) n []"

text \<open>A number in positional notation: \<open>Dec 15 1\<close> is \<^verbatim>\<open>1.5\<close>, \<open>Dec (-5) 3\<close> is \<^verbatim>\<open>-0.005\<close>.\<close>

definition render_dec :: "dec \<Rightarrow> string" where
  "render_dec d = (case d of Dec m k \<Rightarrow>
     (let ds = digits (nat \<bar>m\<bar>);
          ps = replicate (Suc k - length ds) (CHR ''0'') @ ds;
          body = (if k = 0 then ds
                  else take (length ps - k) ps @ CHR ''.'' # drop (length ps - k) ps)
      in if m < 0 then CHR ''-'' # body else body))"

fun join :: "string list \<Rightarrow> string" where
  "join [] = []"
| "join [x] = x"
| "join (x # y # zs) = x @ CHR '','' # join (y # zs)"

fun render :: "gval \<Rightarrow> string" where
  "render VNil = ''null''"
| "render (VBool b) = (if b then ''true'' else ''false'')"
| "render (VNum d) = render_dec d"
| "render (VStr s) = quote s"
| "render (VArr xs) = CHR ''['' # join (map render xs) @ '']''"
| "render (VObj kvs) =
     CHR ''{'' # join (map (\<lambda>kv. quote (fst kv) @ CHR '':'' # render (snd kv)) kvs) @ ''}''"

section \<open>JSON text: the scanner and parser of \<^verbatim>\<open>json.Unmarshal\<close>\<close>

datatype numlit = NumLit bool string string "(bool \<times> string) option"

datatype jsyn =
    SNull
  | SBool bool
  | SNum numlit
  | SStr string
  | SArr "jsyn list"
  | SObj "(string \<times> jsyn) list"

definition is_ws :: "char \<Rightarrow> bool" where
  "is_ws c \<longleftrightarrow> c = CHR '' '' \<or> c = CHR 0x09 \<or> c = CHR 0x0A \<or> c = CHR 0x0D"

definition skip_ws :: "string \<Rightarrow> string" where
  "skip_ws s = dropWhile is_ws s"

definition is_digit :: "char \<Rightarrow> bool" where
  "is_digit c \<longleftrightarrow> 48 \<le> (of_char c :: nat) \<and> (of_char c :: nat) \<le> 57"

definition hex_val :: "char \<Rightarrow> nat option" where
  "hex_val c =
     (let n = (of_char c :: nat) in
      if 48 \<le> n \<and> n \<le> 57 then Some (n - 48)
      else if 97 \<le> n \<and> n \<le> 102 then Some (n - 87)
      else if 65 \<le> n \<and> n \<le> 70 then Some (n - 55)
      else None)"

definition getu4 :: "string \<Rightarrow> nat option" where
  "getu4 s = (case s of
       a # b # c # d # _ \<Rightarrow>
         (case (hex_val a, hex_val b, hex_val c, hex_val d) of
            (Some w, Some x, Some y, Some z) \<Rightarrow> Some (((w * 16 + x) * 16 + y) * 16 + z)
          | _ \<Rightarrow> None)
     | _ \<Rightarrow> None)"

definition utf8_encode :: "nat \<Rightarrow> string" where
  "utf8_encode r =
     (if r < 0x80 then [char_of r]
      else if r < 0x800 then [char_of (0xC0 + r div 64), char_of (0x80 + r mod 64)]
      else if r < 0x10000 then
        [char_of (0xE0 + r div 4096), char_of (0x80 + r div 64 mod 64), char_of (0x80 + r mod 64)]
      else
        [char_of (0xF0 + r div 262144), char_of (0x80 + r div 4096 mod 64),
         char_of (0x80 + r div 64 mod 64), char_of (0x80 + r mod 64)])"

definition is_surrogate :: "nat \<Rightarrow> bool" where
  "is_surrogate r \<longleftrightarrow> 0xD800 \<le> r \<and> r < 0xE000"

definition escape_u :: "string \<Rightarrow> (string \<times> string) option" where
  "escape_u s =
     (case getu4 s of
        None \<Rightarrow> None
      | Some r \<Rightarrow>
          let t = drop 4 s in
          if is_surrogate r then
            (case (if take 2 t = [bsl, CHR ''u''] then getu4 (drop 2 t) else None) of
               Some r1 \<Rightarrow>
                 if r < 0xDC00 \<and> 0xDC00 \<le> r1 \<and> r1 < 0xE000
                 then Some (utf8_encode ((r - 0xD800) * 1024 + (r1 - 0xDC00) + 0x10000), drop 6 t)
                 else Some (utf8_encode 0xFFFD, t)
             | None \<Rightarrow> Some (utf8_encode 0xFFFD, t))
          else Some (utf8_encode r, t))"

definition escape1 :: "char \<Rightarrow> char option" where
  "escape1 e =
     (if e = dq \<or> e = bsl \<or> e = CHR ''/'' then Some e
      else if e = CHR ''b'' then Some (CHR 0x08)
      else if e = CHR ''f'' then Some (CHR 0x0C)
      else if e = CHR ''n'' then Some (CHR 0x0A)
      else if e = CHR ''r'' then Some (CHR 0x0D)
      else if e = CHR ''t'' then Some (CHR 0x09)
      else None)"

lemma escape_u_length: "escape_u s = Some (bs, r) \<Longrightarrow> length r \<le> length s"
  by (auto simp: escape_u_def Let_def split: option.splits if_splits)

text \<open>
  The body of a string literal, after its opening quote: the decoded bytes and the input
  after the closing quote. Raw control characters are refused, as the scanner of
  encoding/json refuses them.
\<close>

function scan_string :: "string \<Rightarrow> (string \<times> string) option" where
  "scan_string [] = None"
| "scan_string (c # cs) =
     (if c = dq then Some ([], cs)
      else if c = bsl then
        (case cs of
           [] \<Rightarrow> None
         | e # r \<Rightarrow>
             if e = CHR ''u'' then
               (case escape_u r of
                  None \<Rightarrow> None
                | Some (bs, r') \<Rightarrow> map_option (apfst ((@) bs)) (scan_string r'))
             else
               (case escape1 e of
                  None \<Rightarrow> None
                | Some x \<Rightarrow> map_option (apfst ((#) x)) (scan_string r)))
      else if (of_char c :: nat) < 32 then None
      else map_option (apfst ((#) c)) (scan_string cs))"
  by pat_completeness auto
termination
  by (relation "measure length") (auto dest: escape_u_length)

definition scan_number :: "string \<Rightarrow> (numlit \<times> string) option" where
  "scan_number s =
     (let neg = (take 1 s = ''-'');
          s1 = (if neg then drop 1 s else s);
          ip = takeWhile is_digit s1;
          s2 = dropWhile is_digit s1;
          has_frac = (take 1 s2 = ''.'');
          fp = (if has_frac then takeWhile is_digit (drop 1 s2) else []);
          s3 = (if has_frac then dropWhile is_digit (drop 1 s2) else s2);
          has_exp = (take 1 s3 = ''e'' \<or> take 1 s3 = ''E'');
          s4 = (if has_exp then drop 1 s3 else s3);
          eneg = (has_exp \<and> take 1 s4 = ''-'');
          s5 = (if has_exp \<and> (take 1 s4 = ''-'' \<or> take 1 s4 = ''+'') then drop 1 s4 else s4);
          ep = (if has_exp then takeWhile is_digit s5 else []);
          s6 = (if has_exp then dropWhile is_digit s5 else s5)
      in if ip = [] \<or> (length ip > 1 \<and> hd ip = CHR ''0'') then None
         else if has_frac \<and> fp = [] then None
         else if has_exp \<and> ep = [] then None
         else Some (NumLit neg ip fp (if has_exp then Some (eneg, ep) else None), s6))"

fun parse_value :: "nat \<Rightarrow> string \<Rightarrow> (jsyn \<times> string) option"
and parse_elems :: "nat \<Rightarrow> string \<Rightarrow> (jsyn list \<times> string) option"
and parse_members :: "nat \<Rightarrow> string \<Rightarrow> ((string \<times> jsyn) list \<times> string) option"
where
  "parse_value 0 s = None"
| "parse_value (Suc n) s =
     (case skip_ws s of
        [] \<Rightarrow> None
      | c # r \<Rightarrow>
          if c = CHR ''['' then
            (if take 1 (skip_ws r) = '']'' then Some (SArr [], drop 1 (skip_ws r))
             else map_option (apfst SArr) (parse_elems n r))
          else if c = CHR ''{'' then
            (if take 1 (skip_ws r) = ''}'' then Some (SObj [], drop 1 (skip_ws r))
             else map_option (apfst SObj) (parse_members n r))
          else if c = dq then map_option (apfst SStr) (scan_string r)
          else if c = CHR ''-'' \<or> is_digit c then map_option (apfst SNum) (scan_number (c # r))
          else if take 4 (c # r) = ''true'' then Some (SBool True, drop 4 (c # r))
          else if take 5 (c # r) = ''false'' then Some (SBool False, drop 5 (c # r))
          else if take 4 (c # r) = ''null'' then Some (SNull, drop 4 (c # r))
          else None)"
| "parse_elems 0 s = None"
| "parse_elems (Suc n) s =
     (case parse_value n s of
        None \<Rightarrow> None
      | Some (v, r) \<Rightarrow>
          (case skip_ws r of
             [] \<Rightarrow> None
           | c # r' \<Rightarrow>
               if c = CHR '','' then map_option (apfst ((#) v)) (parse_elems n r')
               else if c = CHR '']'' then Some ([v], r')
               else None))"
| "parse_members 0 s = None"
| "parse_members (Suc n) s =
     (case skip_ws s of
        [] \<Rightarrow> None
      | c # r \<Rightarrow>
          if c \<noteq> dq then None
          else
            (case scan_string r of
               None \<Rightarrow> None
             | Some (k, r1) \<Rightarrow>
                 (case skip_ws r1 of
                    [] \<Rightarrow> None
                  | c1 # r2 \<Rightarrow>
                      if c1 \<noteq> CHR '':'' then None
                      else
                        (case parse_value n r2 of
                           None \<Rightarrow> None
                         | Some (v, r3) \<Rightarrow>
                             (case skip_ws r3 of
                                [] \<Rightarrow> None
                              | c3 # r4 \<Rightarrow>
                                  if c3 = CHR '','' then
                                    map_option (apfst ((#) (k, v))) (parse_members n r4)
                                  else if c3 = CHR ''}'' then Some ([(k, v)], r4)
                                  else None)))))"

definition json_parse :: "string \<Rightarrow> jsyn option" where
  "json_parse s =
     (case parse_value (2 * length s + 2) s of
        None \<Rightarrow> None
      | Some (v, r) \<Rightarrow> if skip_ws r = [] then Some v else None)"


section \<open>Decoding JSON into Go types\<close>

subsection \<open>Numbers\<close>

definition nat_of_digits :: "string \<Rightarrow> nat" where
  "nat_of_digits ds = foldl (\<lambda>a c. 10 * a + (of_char c - 48)) 0 ds"

text \<open>\<open>m / 10 ^ k\<close> without trailing zeros in the fraction.\<close>

primrec norm_dec :: "int \<Rightarrow> nat \<Rightarrow> dec" where
  "norm_dec m 0 = Dec m 0"
| "norm_dec m (Suc k) = (if m mod 10 = 0 then norm_dec (m div 10) k else Dec m (Suc k))"

text \<open>The value of a number literal (\<^verbatim>\<open>strconv.ParseFloat\<close>, without the rounding).\<close>

definition lit_dec :: "numlit \<Rightarrow> dec" where
  "lit_dec l = (case l of NumLit neg ip fp ex \<Rightarrow>
     (let m = int (nat_of_digits (ip @ fp));
          m' = (if neg then - m else m);
          k = int (length fp);
          e = (case ex of
                 None \<Rightarrow> 0
               | Some (eneg, ds) \<Rightarrow>
                   if eneg then - int (nat_of_digits ds) else int (nat_of_digits ds))
      in if k \<le> e then Dec (m' * 10 ^ nat (e - k)) 0 else norm_dec m' (nat (k - e))))"

text \<open>The conversion \<^verbatim>\<open>int(val)\<close> of a \<^verbatim>\<open>float64\<close>: the fraction is dropped.\<close>

definition dec_trunc :: "dec \<Rightarrow> int" where
  "dec_trunc d = (case d of Dec m k \<Rightarrow>
     if m < 0 then - ((- m) div 10 ^ k) else m div 10 ^ k)"

subsection \<open>Decoding into \<^verbatim>\<open>interface{}\<close>\<close>

text \<open>
  A JSON object becomes a map by storing its members in the order of the text, so of two
  members with one key the later one stays.
\<close>

definition obj_of :: "(string \<times> 'v) list \<Rightarrow> 'v gomap" where
  "obj_of kvs = foldl (\<lambda>m kv. map_assign (fst kv) (snd kv) m) [] kvs"

fun to_go :: "jsyn \<Rightarrow> gval" where
  "to_go SNull = VNil"
| "to_go (SBool b) = VBool b"
| "to_go (SNum l) = VNum (lit_dec l)"
| "to_go (SStr s) = VStr s"
| "to_go (SArr xs) = VArr (map to_go xs)"
| "to_go (SObj kvs) = VObj (obj_of (map (\<lambda>kv. (fst kv, to_go (snd kv))) kvs))"

text \<open>The \<^verbatim>\<open>map[string]interface{}\<close> of the members of a JSON object.\<close>

definition go_object :: "(string \<times> jsyn) list \<Rightarrow> gval gomap" where
  "go_object kvs = obj_of (map (\<lambda>kv. (fst kv, to_go (snd kv))) kvs)"

text \<open>\<^verbatim>\<open>var v interface{}; json.Unmarshal(p, &v)\<close>\<close>

definition json_Unmarshal_any :: "string \<Rightarrow> gval result" where
  "json_Unmarshal_any p =
     (case json_parse p of None \<Rightarrow> Err SyntaxError | Some j \<Rightarrow> Ok (to_go j))"

subsection \<open>Decoding into the typed targets of the source\<close>

text \<open>
  \<^verbatim>\<open>json.Unmarshal\<close> checks the whole payload first (a syntax error wins), then stores by
  the target's type: a JSON \<^verbatim>\<open>null\<close> sets a map or slice to nil and leaves a string or
  number as it is, and a value of the wrong kind is an \<^verbatim>\<open>UnmarshalTypeError\<close>.
\<close>

text \<open>\<^verbatim>\<open>json.Unmarshal(p, &s.StrVal)\<close>; \<open>cur\<close> is the string held before.\<close>

definition json_Unmarshal_string :: "string \<Rightarrow> string \<Rightarrow> string result" where
  "json_Unmarshal_string p cur =
     (case json_parse p of
        None \<Rightarrow> Err SyntaxError
      | Some (SStr s) \<Rightarrow> Ok s
      | Some SNull \<Rightarrow> Ok cur
      | Some _ \<Rightarrow> Err UnmarshalTypeError)"

text \<open>
  The elements of a JSON array stored into a \<^verbatim>\<open>[]string\<close>: element \<open>i\<close> is decoded into
  slot \<open>i\<close> of the slice, so a \<^verbatim>\<open>null\<close> leaves what the slot held (\<open>old\<close> lists the slots
  of the slice held before; a new slot holds the empty string).
\<close>

definition string_elem :: "jsyn \<Rightarrow> string list \<Rightarrow> string option" where
  "string_elem x old =
     (case x of
        SStr s \<Rightarrow> Some s
      | SNull \<Rightarrow> Some (case old of [] \<Rightarrow> [] | held # _ \<Rightarrow> held)
      | _ \<Rightarrow> None)"

fun string_elems :: "jsyn list \<Rightarrow> string list \<Rightarrow> string list option" where
  "string_elems [] old = Some []"
| "string_elems (x # xs) old =
     (case string_elem x old of
        None \<Rightarrow> None
      | Some s \<Rightarrow> map_option ((#) s) (string_elems xs (tl old)))"

text \<open>\<^verbatim>\<open>json.Unmarshal(p, &s.SliceVal)\<close>; \<open>None\<close> is the nil slice.\<close>

definition json_Unmarshal_strings :: "string \<Rightarrow> string list option \<Rightarrow> string list option result" where
  "json_Unmarshal_strings p cur =
     (case json_parse p of
        None \<Rightarrow> Err SyntaxError
      | Some (SArr xs) \<Rightarrow>
          (case string_elems xs (case cur of None \<Rightarrow> [] | Some old \<Rightarrow> old) of
             None \<Rightarrow> Err UnmarshalTypeError
           | Some ys \<Rightarrow> Ok (Some ys))
      | Some SNull \<Rightarrow> Ok None
      | Some _ \<Rightarrow> Err UnmarshalTypeError)"

text \<open>A member of a \<^verbatim>\<open>map[string]float64\<close>: a number, or \<^verbatim>\<open>null\<close>, which leaves the zero value.\<close>

definition float_of :: "jsyn \<Rightarrow> dec option" where
  "float_of v = (case v of SNum l \<Rightarrow> Some (lit_dec l) | SNull \<Rightarrow> Some (Dec 0 0) | _ \<Rightarrow> None)"

fun float_members :: "(string \<times> jsyn) list \<Rightarrow> (string \<times> dec) list option" where
  "float_members [] = Some []"
| "float_members ((k, v) # kvs) =
     (case float_of v of
        None \<Rightarrow> None
      | Some d \<Rightarrow> map_option ((#) (k, d)) (float_members kvs))"

text \<open>\<^verbatim>\<open>value := map[string]float64{}; json.Unmarshal(p, &value)\<close>; a \<^verbatim>\<open>null\<close> payload makes
  the map nil, which ranges like the empty map.\<close>

definition json_Unmarshal_floats :: "string \<Rightarrow> dec gomap result" where
  "json_Unmarshal_floats p =
     (case json_parse p of
        None \<Rightarrow> Err SyntaxError
      | Some (SObj kvs) \<Rightarrow>
          (case float_members kvs of
             None \<Rightarrow> Err UnmarshalTypeError
           | Some ms \<Rightarrow> Ok (obj_of ms))
      | Some SNull \<Rightarrow> Ok []
      | Some _ \<Rightarrow> Err UnmarshalTypeError)"

text \<open>\<^verbatim>\<open>var config map[string]interface{}; json.Unmarshal(p, &config)\<close>\<close>

definition json_Unmarshal_object :: "string \<Rightarrow> gval gomap option result" where
  "json_Unmarshal_object p =
     (case json_parse p of
        None \<Rightarrow> Err SyntaxError
      | Some (SObj kvs) \<Rightarrow> Ok (Some (go_object kvs))
      | Some SNull \<Rightarrow> Ok None
      | Some _ \<Rightarrow> Err UnmarshalTypeError)"

section \<open>Scalar or list: \<^verbatim>\<open>StringOrSlice\<close>\<close>

text \<open>\<open>SliceVal = None\<close> is the nil slice: the value is a list when \<open>SliceVal\<close> is not nil.\<close>

record StringOrSlice =
  StrVal :: string
  SliceVal :: "string list option"

text \<open>\<^verbatim>\<open>func (s *StringOrSlice) MarshalJSON() ([]byte, error)\<close>\<close>

definition StringOrSlice_MarshalJSON :: "StringOrSlice \<Rightarrow> string" where
  "StringOrSlice_MarshalJSON s =
     (case SliceVal s of
        Some xs \<Rightarrow> render (VArr (map VStr xs))
      | None \<Rightarrow> render (VStr (StrVal s)))"

text \<open>\<^verbatim>\<open>func (s *StringOrSlice) UnmarshalJSON(p []byte) error\<close>: the receiver before the call
  and the payload give the error or the receiver after the call.\<close>

definition StringOrSlice_UnmarshalJSON :: "StringOrSlice \<Rightarrow> string \<Rightarrow> StringOrSlice result" where
  "StringOrSlice_UnmarshalJSON s p =
     (case p of
        [] \<Rightarrow> Err EmptyObject
      | c # _ \<Rightarrow>
          if c = CHR ''['' then
            (case json_Unmarshal_strings p (SliceVal s) of
               Ok v \<Rightarrow> Ok (s\<lparr>SliceVal := v\<rparr>)
             | Err e \<Rightarrow> Err e
             | Panic x \<Rightarrow> Panic x)
          else
            (case json_Unmarshal_string p (StrVal s) of
               Ok v \<Rightarrow> Ok (s\<lparr>StrVal := v\<rparr>)
             | Err e \<Rightarrow> Err e
             | Panic x \<Rightarrow> Panic x))"

section \<open>Node sets: \<^verbatim>\<open>UpstreamNodes\<close>\<close>

record UpstreamNode =
  Host :: string
  Port :: int
  Weight :: int

text \<open>\<^verbatim>\<open>strings.Split(key, ":")\<close> for a one-byte separator: always at least one part.\<close>

fun strings_Split :: "string \<Rightarrow> char \<Rightarrow> string list" where
  "strings_Split [] sep = [[]]"
| "strings_Split (c # cs) sep =
     (if c = sep then [] # strings_Split cs sep
      else (c # hd (strings_Split cs sep)) # tl (strings_Split cs sep))"

text \<open>
  \<^verbatim>\<open>strconv.Atoi\<close> on a 64-bit platform: an optional sign, then one or more decimal
  digits, the value within the range of \<^verbatim>\<open>int\<close>; anything else is an error.
\<close>

definition strconv_Atoi :: "string \<Rightarrow> int option" where
  "strconv_Atoi s =
     (let neg = (take 1 s = ''-'');
          ds = (if take 1 s = ''-'' \<or> take 1 s = ''+'' then drop 1 s else s);
          v = (if neg then - int (nat_of_digits ds) else int (nat_of_digits ds))
      in if ds = [] \<or> \<not> list_all is_digit ds then None
         else if v < - (2 ^ 63) \<or> 2 ^ 63 - 1 < v then None
         else Some v)"

text \<open>\<^verbatim>\<open>func mapKV2Node(key string, val float64) (*UpstreamNode, error)\<close>\<close>

definition mapKV2Node :: "string \<Rightarrow> dec \<Rightarrow> UpstreamNode result" where
  "mapKV2Node key val =
     (let hp = strings_Split key (CHR '':'');
          host = hd hp
      in if length hp > 2 then Err InvalidUpstreamNode
         else
           (let port = (if length hp = 2 then hp ! 1 else ''80'') in
            case strconv_Atoi port of
              None \<Rightarrow> Err ParsePortFail
            | Some portInt \<Rightarrow> Ok \<lparr>Host = host, Port = portInt, Weight = dec_trunc val\<rparr>))"

text \<open>The loop \<^verbatim>\<open>for k, v := range value\<close> over the entries in the order the map yields them.\<close>

fun range_nodes :: "(string \<times> dec) list \<Rightarrow> UpstreamNode list \<Rightarrow> UpstreamNode list result" where
  "range_nodes [] data = Ok data"
| "range_nodes ((k, v) # kvs) data =
     (case mapKV2Node k v of
        Ok node \<Rightarrow> range_nodes kvs (data @ [node])
      | Err e \<Rightarrow> Err e
      | Panic x \<Rightarrow> Panic x)"

text \<open>
  \<^verbatim>\<open>func (n *UpstreamNodes) UnmarshalJSON(p []byte) error\<close>. Two things come from outside:
  \<open>order\<close>, the order in which \<^verbatim>\<open>range\<close> yields the entries of a map (Go leaves it
  unspecified), and \<open>decode_array\<close>, the library's decoding of the payload into
  \<^verbatim>\<open>[]UpstreamNode\<close> (\<^verbatim>\<open>json.Unmarshal(p, &data)\<close>, the record-array shape). The node
  sequence replaces the receiver, so the receiver before the call plays no part; the nil
  slice and the empty slice are both the empty list.
\<close>

definition UpstreamNodes_UnmarshalJSON ::
  "(dec gomap \<Rightarrow> (string \<times> dec) list) \<Rightarrow> (string \<Rightarrow> UpstreamNode list result)
   \<Rightarrow> string \<Rightarrow> UpstreamNode list result" where
  "UpstreamNodes_UnmarshalJSON order decode_array p =
     (case p of
        [] \<Rightarrow> Panic IndexOutOfRange
      | c # _ \<Rightarrow>
          if c = CHR ''{'' then
            (case json_Unmarshal_floats p of
               Ok value \<Rightarrow> range_nodes (order value) []
             | Err e \<Rightarrow> Err e
             | Panic x \<Rightarrow> Panic x)
          else decode_array p)"

section \<open>Dynamic metadata: \<^verbatim>\<open>PluginMetadata\<close>\<close>

text \<open>\<open>Config = None\<close> is the nil map.\<close>

record PluginMetadata =
  ID :: string
  Config :: "gval gomap option"

text \<open>
  \<^verbatim>\<open>func (s *PluginMetadata) MarshalJSON() ([]byte, error)\<close>. The receiver is a pointer, so
  the assignments to \<^verbatim>\<open>s.Config\<close> stay after the call: the function returns the bytes
  and the receiver as the call leaves it. \<^verbatim>\<open>json.Marshal\<close> of the values modelled here
  has no error.
\<close>

definition PluginMetadata_MarshalJSON :: "PluginMetadata \<Rightarrow> string \<times> PluginMetadata" where
  "PluginMetadata_MarshalJSON s =
     (let c0 = (case Config s of None \<Rightarrow> [] | Some m \<Rightarrow> m);
          c1 = map_assign ''id'' (VStr (ID s)) c0;
          p = render (VObj c1);
          c2 = map_delete ''id'' c1
      in (p, s\<lparr>Config := Some c2\<rparr>))"

text \<open>\<^verbatim>\<open>func (s *PluginMetadata) UnmarshalJSON(p []byte) error\<close>. A JSON \<^verbatim>\<open>null\<close> under
  \<^verbatim>\<open>"id"\<close> is the nil interface value: \<^verbatim>\<open>reflect.TypeOf(id)\<close> is then nil and the call of
  \<^verbatim>\<open>Kind()\<close> on it panics.\<close>

definition PluginMetadata_UnmarshalJSON :: "PluginMetadata \<Rightarrow> string \<Rightarrow> PluginMetadata result" where
  "PluginMetadata_UnmarshalJSON s p =
     (case json_Unmarshal_object p of
        Err e \<Rightarrow> Err e
      | Panic x \<Rightarrow> Panic x
      | Ok None \<Rightarrow> Ok (s\<lparr>Config := None\<rparr>)
      | Ok (Some config) \<Rightarrow>
          (case map_lookup config ''id'' of
             None \<Rightarrow> Ok (s\<lparr>Config := Some config\<rparr>)
           | Some VNil \<Rightarrow> Panic NilDereference
           | Some (VStr i) \<Rightarrow> Ok (s\<lparr>ID := i, Config := Some (map_delete ''id'' config)\<rparr>)
           | Some _ \<Rightarrow> Err (MetadataIdNotString p)))"

section \<open>Plugin configuration: \<^verbatim>\<open>Plugins\<close>\<close>

text \<open>
  \<^verbatim>\<open>type Plugin map[string]interface{}\<close> and \<^verbatim>\<open>type Plugins map[string]Plugin\<close>; \<open>None\<close> is the
  nil map. \<^verbatim>\<open>GetPluginDefaultValues\<close> is not among the files of the repository at hand:
  the codec takes it as the parameter \<open>defaults\<close>.
\<close>

type_synonym Plugin = "gval gomap option"
type_synonym Plugins = "Plugin gomap option"

definition plugin_val :: "Plugin \<Rightarrow> gval" where
  "plugin_val c = (case c of None \<Rightarrow> VNil | Some m \<Rightarrow> VObj m)"

text \<open>A member of a \<^verbatim>\<open>map[string]Plugin\<close>: an object, or \<^verbatim>\<open>null\<close>, which is the nil map.\<close>

definition plugin_of :: "jsyn \<Rightarrow> Plugin option" where
  "plugin_of v = (case v of SObj ms \<Rightarrow> Some (Some (go_object ms)) | SNull \<Rightarrow> Some None | _ \<Rightarrow> None)"

fun plugin_members :: "(string \<times> jsyn) list \<Rightarrow> (string \<times> Plugin) list option" where
  "plugin_members [] = Some []"
| "plugin_members ((k, v) # kvs) =
     (case plugin_of v of
        None \<Rightarrow> None
      | Some c \<Rightarrow> map_option ((#) (k, c)) (plugin_members kvs))"

text \<open>\<^verbatim>\<open>var plugins map[string]Plugin; json.Unmarshal(cont, &plugins)\<close>\<close>

definition json_Unmarshal_plugins :: "string \<Rightarrow> Plugins result" where
  "json_Unmarshal_plugins cont =
     (case json_parse cont of
        None \<Rightarrow> Err SyntaxError
      | Some (SObj kvs) \<Rightarrow>
          (case plugin_members kvs of
             None \<Rightarrow> Err UnmarshalTypeError
           | Some ms \<Rightarrow> Ok (Some (obj_of ms)))
      | Some SNull \<Rightarrow> Ok None
      | Some _ \<Rightarrow> Err UnmarshalTypeError)"

text \<open>The loop \<^verbatim>\<open>for name, config := range plugins { (*p)[name] = GetPluginDefaultValues(name, config) }\<close>.
  The keys of \<open>plugins\<close> differ from each other, so the map it leaves does not depend on
  the order of the entries.\<close>

fun range_plugins ::
  "(string \<Rightarrow> Plugin \<Rightarrow> Plugin) \<Rightarrow> (string \<times> Plugin) list \<Rightarrow> Plugin gomap \<Rightarrow> Plugin gomap" where
  "range_plugins defaults [] m = m"
| "range_plugins defaults ((name, config) # r) m =
     range_plugins defaults r (map_assign name (defaults name config) m)"

text \<open>
  \<^verbatim>\<open>func (p *Plugins) UnmarshalJSON(cont []byte) error\<close>. The receiver \<open>p\<close> is a pointer:
  \<open>None\<close> is the nil pointer, \<open>Some m\<close> points to the map \<open>m\<close>; the result is the map the
  pointer leads to after the call. With a nil pointer the assignment \<^verbatim>\<open>*p = make(Plugins)\<close>
  panics.
\<close>

definition Plugins_UnmarshalJSON ::
  "(string \<Rightarrow> Plugin \<Rightarrow> Plugin) \<Rightarrow> Plugins option \<Rightarrow> string \<Rightarrow> Plugins result" where
  "Plugins_UnmarshalJSON defaults p cont =
     (case json_Unmarshal_plugins cont of
        Err e \<Rightarrow> Err e
      | Panic x \<Rightarrow> Panic x
      | Ok plugins \<Rightarrow>
          (case p of
             None \<Rightarrow> Panic NilDereference
           | Some m \<Rightarrow>
               Ok (Some (range_plugins defaults
                           (case plugins of None \<Rightarrow> [] | Some ps \<Rightarrow> ps)
                           (case m of None \<Rightarrow> [] | Some m' \<Rightarrow> m')))))"

text \<open>\<^verbatim>\<open>json.Marshal(&p)\<close> for \<^verbatim>\<open>p *Plugins\<close>: pointers are followed, a nil pointer or nil map
  is \<^verbatim>\<open>null\<close>.\<close>

definition json_Marshal_plugins :: "Plugins option \<Rightarrow> string" where
  "json_Marshal_plugins p =
     (case p of
        None \<Rightarrow> render VNil
      | Some None \<Rightarrow> render VNil
      | Some (Some m) \<Rightarrow> render (VObj (map (\<lambda>kv. (fst kv, plugin_val (snd kv))) m)))"

text \<open>
  \<^verbatim>\<open>func (p *Plugins) DeepCopyInto(out *Plugins)\<close>: both errors are dropped.
  \<^verbatim>\<open>json.Unmarshal(b, out)\<close> refuses a nil \<open>out\<close>; otherwise \<open>out\<close> is an \<^verbatim>\<open>Unmarshaler\<close> and
  its \<^verbatim>\<open>UnmarshalJSON\<close> above is called with \<open>b\<close>. The result is what \<open>out\<close> points to
  after the call.
\<close>

definition Plugins_DeepCopyInto ::
  "(string \<Rightarrow> Plugin \<Rightarrow> Plugin) \<Rightarrow> Plugins option \<Rightarrow> Plugins option \<Rightarrow> Plugins option" where
  "Plugins_DeepCopyInto defaults p out =
     (let b = json_Marshal_plugins p in
      case out of
        None \<Rightarrow> None
      | Some m \<Rightarrow>
          (case Plugins_UnmarshalJSON defaults out b of
             Ok m' \<Rightarrow> Some m'
           | Err e \<Rightarrow> Some m
           | Panic x \<Rightarrow> Some m))"

text \<open>\<^verbatim>\<open>func (p *Plugins) DeepCopy() *Plugins\<close>; \<^verbatim>\<open>new(Plugins)\<close> points to a nil map.\<close>

definition Plugins_DeepCopy :: "(string \<Rightarrow> Plugin \<Rightarrow> Plugin) \<Rightarrow> Plugins option \<Rightarrow> Plugins option" where
  "Plugins_DeepCopy defaults p =
     (case p of
        None \<Rightarrow> None
      | Some m \<Rightarrow> Plugins_DeepCopyInto defaults p (Some None))"

section \<open>The node of a map entry, in the words of the specification\<close>

text \<open>
  ``Each key is split on its single colon (more than one colon is a malformed node);
  absent colon defaults port to 80; weight is the numeric value truncated to integer;
  non-numeric port segment is a malformed node.'' These two definitions follow that
  sentence, to be compared with \<open>mapKV2Node\<close>; a port segment is numeric when
  \<^verbatim>\<open>strconv.Atoi\<close> reads it.
\<close>

definition spec_key_parts :: "string \<Rightarrow> (string \<times> string) option" where
  "spec_key_parts key =
     (if count_list key (CHR '':'') = 0 then Some (key, ''80'')
      else if count_list key (CHR '':'') = 1
        then Some (takeWhile (\<lambda>c. c \<noteq> CHR '':'') key, tl (dropWhile (\<lambda>c. c \<noteq> CHR '':'') key))
      else None)"

definition spec_node :: "string \<Rightarrow> dec \<Rightarrow> UpstreamNode option" where
  "spec_node key w =
     (case spec_key_parts key of
        None \<Rightarrow> None
      | Some (h, pt) \<Rightarrow>
          (case strconv_Atoi pt of
             None \<Rightarrow> None
           | Some n \<Rightarrow> Some \<lparr>Host = h, Port = n, Weight = dec_trunc w\<rparr>))"

section \<open>Properties of the map operations\<close>

lemma map_delete_assign:
  "k \<notin> fst ` set m \<Longrightarrow> map_delete k (map_assign k v m) = m"
  by (induction m) (auto simp: map_delete_def filter_id_conv)

lemma map_lookup_None_iff: "map_lookup m k = None \<longleftrightarrow> k \<notin> fst ` set m"
  by (simp add: map_lookup_def map_of_eq_None_iff)

lemma map_lookup_assign:
  "map_lookup (map_assign k v m) k' = (if k' = k then Some v else map_lookup m k')"
  by (induction m) (auto simp: map_lookup_def)

lemma map_lookup_range_plugins:
  "map_lookup (range_plugins d ps m) k =
     (case map_of (rev ps) k of Some c \<Rightarrow> Some (d k c) | None \<Rightarrow> map_lookup m k)"
proof (induction ps arbitrary: m)
  case Nil
  then show ?case by simp
next
  case (Cons a ps)
  obtain n c where a: "a = (n, c)" by (cases a)
  show ?case
    by (simp add: a Cons.IH map_lookup_assign map_add_def split: option.splits)
qed

lemma keys_map_assign: "set (map fst (map_assign k v m)) = insert k (set (map fst m))"
  by (induction m) (auto simp: rev_image_eqI split: if_splits)

lemma sorted_map_assign:
  "sorted_wrt (<) (map fst m) \<Longrightarrow> sorted_wrt (<) (map fst (map_assign k v m))"
proof (induction m)
  case Nil
  then show ?case by simp
next
  case (Cons a m)
  obtain k' v' where a: "a = (k', v')" by (cases a)
  from Cons.prems have le: "\<forall>x \<in> set (map fst m). k' < x" and sm: "sorted_wrt (<) (map fst m)"
    by (simp_all add: a)
  show ?case
  proof (cases "k = k'")
    case True
    with Cons.prems show ?thesis by (simp add: a)
  next
    case False
    show ?thesis
    proof (cases "k < k'")
      case True
      with Cons.prems le show ?thesis by (auto simp: a)
    next
      case False
      with \<open>k \<noteq> k'\<close> have "k' < k" by simp
      with False \<open>k \<noteq> k'\<close> le Cons.IH [OF sm] show ?thesis
        unfolding a by (simp add: keys_map_assign del: set_map)
    qed
  qed
qed

lemma sorted_obj_of_aux:
  "sorted_wrt (<) (map fst m) \<Longrightarrow>
   sorted_wrt (<) (map fst (foldl (\<lambda>m kv. map_assign (fst kv) (snd kv) m) m kvs))"
  by (induction kvs arbitrary: m) (auto simp: sorted_map_assign)

lemma sorted_obj_of: "sorted_wrt (<) (map fst (obj_of kvs))"
  by (simp add: obj_of_def sorted_obj_of_aux)

lemma distinct_obj_of: "distinct (map fst (obj_of kvs))"
  using sorted_obj_of [of kvs] by (simp add: strict_sorted_iff)


lemma map_lookup_obj_of_aux:
  "map_lookup (foldl (\<lambda>m kv. map_assign (fst kv) (snd kv) m) m kvs) k =
     (case map_of (rev kvs) k of Some v \<Rightarrow> Some v | None \<Rightarrow> map_lookup m k)"
  by (induction kvs arbitrary: m)
     (auto simp: map_lookup_assign map_add_def split: option.splits)

lemma map_lookup_obj_of: "map_lookup (obj_of kvs) k = map_of (rev kvs) k"
  using map_lookup_obj_of_aux [of "[]" kvs k]
  by (simp add: obj_of_def map_lookup_def split: option.splits)

lemma map_of_rev_distinct: "distinct (map fst xs) \<Longrightarrow> map_of (rev xs) = map_of xs"
  by (rule map_of_inject_set [THEN iffD2]) (simp_all add: distinct_rev rev_map [symmetric])


lemma plugin_members_keys: "plugin_members kvs = Some ms \<Longrightarrow> map fst ms = map fst kvs"
  by (induction kvs arbitrary: ms) (auto split: option.splits)

section \<open>Dynamic metadata: what encoding leaves behind\<close>

text \<open>
  Claim C4 (as amended). \<^verbatim>\<open>MarshalJSON\<close> works on the receiver's own map: it stores the
  identifier under \<^verbatim>\<open>"id"\<close>, serializes, and deletes \<^verbatim>\<open>"id"\<close> again; no clone is made.
  For every identifier and every configuration map that has no key \<^verbatim>\<open>"id"\<close>, the record
  after the call is the record before it; a nil map is left behind as an allocated
  empty map.
\<close>

theorem PluginMetadata_MarshalJSON_restores:
  assumes "map_lookup m ''id'' = None"
  shows "snd (PluginMetadata_MarshalJSON \<lparr>ID = i, Config = Some m\<rparr>) = \<lparr>ID = i, Config = Some m\<rparr>
       \<and> snd (PluginMetadata_MarshalJSON \<lparr>ID = i, Config = None\<rparr>) = \<lparr>ID = i, Config = Some []\<rparr>"
proof -
  from assms have "''id'' \<notin> fst ` set m"
    by (simp add: map_lookup_None_iff)
  then have "map_delete ''id'' (map_assign ''id'' (VStr i) m) = m"
    by (rule map_delete_assign)
  then show ?thesis
    by (simp add: PluginMetadata_MarshalJSON_def map_delete_def)
qed

theorem PluginMetadata_MarshalJSON_restores_witness:
  "map_lookup [(''x'', VNum (Dec 1 0))] ''id'' = None
   \<and> snd (PluginMetadata_MarshalJSON \<lparr>ID = ''abc'', Config = Some [(''x'', VNum (Dec 1 0))]\<rparr>)
       = \<lparr>ID = ''abc'', Config = Some [(''x'', VNum (Dec 1 0))]\<rparr>"
proof -
  have h: "map_lookup [(''x'', VNum (Dec 1 0))] ''id'' = None"
    by (simp add: map_lookup_def)
  from PluginMetadata_MarshalJSON_restores [OF h, of "''abc''"] h show ?thesis
    by simp
qed

text \<open>
  The claim as stated fails at the two inputs it names: a nil map is not nil after the
  call, and an entry already stored under \<^verbatim>\<open>"id"\<close> is gone after it.
\<close>

theorem PluginMetadata_MarshalJSON_mutates:
  "Config (snd (PluginMetadata_MarshalJSON \<lparr>ID = ''a'', Config = None\<rparr>)) \<noteq> None
   \<and> Config (snd (PluginMetadata_MarshalJSON \<lparr>ID = ''a'', Config = Some [(''id'', VStr ''b'')]\<rparr>))
       = Some []"
  by (simp add: PluginMetadata_MarshalJSON_def map_delete_def)

section \<open>Plugin configuration: decoding\<close>





lemma plugin_members_Some_keys:
  "plugin_members kvs = Some ms \<Longrightarrow> fst ` set ms = fst ` set kvs"
  using plugin_members_keys [of kvs ms] by (metis list.set_map)

text \<open>
  Claim C10. \<^verbatim>\<open>Plugins.UnmarshalJSON\<close> allocates a map only when the receiver holds none;
  otherwise it stores into the map already held. For every map \<open>m\<close> held before and every
  payload that decodes, an entry of \<open>m\<close> whose name is not a member of the payload is
  the same after the call.
\<close>

theorem Plugins_UnmarshalJSON_merges:
  assumes "json_parse cont = Some (SObj kvs)"
    and "plugin_members kvs = Some ps"
    and "name \<notin> fst ` set kvs"
  shows "\<exists>r. Plugins_UnmarshalJSON defaults (Some (Some m)) cont = Ok (Some r)
           \<and> map_lookup r name = map_lookup m name"
proof -
  let ?r = "range_plugins defaults (obj_of ps) m"
  have res: "Plugins_UnmarshalJSON defaults (Some (Some m)) cont = Ok (Some ?r)"
    by (simp add: Plugins_UnmarshalJSON_def json_Unmarshal_plugins_def assms)
  from assms(2,3) have "name \<notin> fst ` set ps"
    by (simp add: plugin_members_Some_keys)
  then have "map_of (rev ps) name = None"
    by (simp add: map_of_eq_None_iff)
  then have "map_of (rev (obj_of ps)) name = None"
    using map_lookup_obj_of [of ps name]
    by (simp add: map_of_rev_distinct distinct_obj_of map_lookup_def)
  then have "map_lookup ?r name = map_lookup m name"
    by (simp add: map_lookup_range_plugins)
  with res show ?thesis
    by blast
qed

theorem Plugins_UnmarshalJSON_merges_witness:
  "json_parse ''{\"cors\":{}}'' = Some (SObj [(''cors'', SObj [])])
   \<and> plugin_members [(''cors'', SObj [])] = Some [(''cors'', Some [])]
   \<and> ''limit-count'' \<notin> fst ` set [(''cors'', SObj [])]
   \<and> (\<exists>r. Plugins_UnmarshalJSON (\<lambda>name supplied. supplied)
              (Some (Some [(''limit-count'', Some [(''count'', VNum (Dec 2 0))])]))
              ''{\"cors\":{}}'' = Ok (Some r)
          \<and> map_lookup r ''limit-count'' = Some (Some [(''count'', VNum (Dec 2 0))]))"
proof -
  have p: "json_parse ''{\"cors\":{}}'' = Some (SObj [(''cors'', SObj [])])"
    by code_simp
  have q: "plugin_members [(''cors'', SObj [])] = Some [(''cors'', Some [])]"
    by code_simp
  have n: "''limit-count'' \<notin> fst ` set [(''cors'', SObj [])]"
    by simp
  from Plugins_UnmarshalJSON_merges [OF p q n,
      of "\<lambda>name supplied. supplied" "[(''limit-count'', Some [(''count'', VNum (Dec 2 0))])]"]
  have "\<exists>r. Plugins_UnmarshalJSON (\<lambda>name supplied. supplied)
              (Some (Some [(''limit-count'', Some [(''count'', VNum (Dec 2 0))])]))
              ''{\"cors\":{}}'' = Ok (Some r)
          \<and> map_lookup r ''limit-count'' = Some (Some [(''count'', VNum (Dec 2 0))])"
    by (simp add: map_lookup_def)
  with p q n show ?thesis
    by blast
qed

section \<open>Dynamic metadata: decoding\<close>

text \<open>
  Claim C3 holds but for one case. For a payload that decodes to the object \<open>config\<close>:
  without \<^verbatim>\<open>"id"\<close> the record passes through and the identifier stays as it was (empty
  in a fresh receiver); a string under \<^verbatim>\<open>"id"\<close> is removed and becomes the identifier; a
  Boolean, number, array or object under \<^verbatim>\<open>"id"\<close> is the error that names the payload.
\<close>

lemma PluginMetadata_UnmarshalJSON_cases:
  assumes "json_Unmarshal_object p = Ok (Some config)"
  shows "map_lookup config ''id'' = None \<Longrightarrow>
           PluginMetadata_UnmarshalJSON s p = Ok (s\<lparr>Config := Some config\<rparr>)"
    and "map_lookup config ''id'' = Some (VStr i) \<Longrightarrow>
           PluginMetadata_UnmarshalJSON s p = Ok (s\<lparr>ID := i, Config := Some (map_delete ''id'' config)\<rparr>)"
    and "map_lookup config ''id'' = Some v \<Longrightarrow> v \<noteq> VNil \<Longrightarrow> \<forall>i. v \<noteq> VStr i \<Longrightarrow>
           PluginMetadata_UnmarshalJSON s p = Err (MetadataIdNotString p)"
  using assms by (auto simp: PluginMetadata_UnmarshalJSON_def split: gval.splits)

text \<open>
  Claim C3, the failing case. A JSON \<^verbatim>\<open>null\<close> under \<^verbatim>\<open>"id"\<close> is not a string, and the claim
  asks for the error; the call panics instead, in \<^verbatim>\<open>reflect.TypeOf(id).Kind()\<close>.
\<close>

theorem PluginMetadata_UnmarshalJSON_null_id_panics:
  "PluginMetadata_UnmarshalJSON \<lparr>ID = [], Config = None\<rparr> ''{\"id\":null}'' = Panic NilDereference"
  by code_simp

section \<open>Node sets: decoding\<close>

text \<open>
  Claim C6, the failing case. On a zero-length payload \<^verbatim>\<open>UpstreamNodes.UnmarshalJSON\<close>
  reads \<^verbatim>\<open>p[0]\<close> and panics; no error is returned. \<^verbatim>\<open>StringOrSlice.UnmarshalJSON\<close> tests
  the length first and returns its error.
\<close>

theorem UpstreamNodes_UnmarshalJSON_empty_panics:
  "UpstreamNodes_UnmarshalJSON order decode_array [] = Panic IndexOutOfRange"
  by (simp add: UpstreamNodes_UnmarshalJSON_def)

lemma StringOrSlice_UnmarshalJSON_empty: "StringOrSlice_UnmarshalJSON s [] = Err EmptyObject"
  by (simp add: StringOrSlice_UnmarshalJSON_def)

end
